theory Spec2Isabelle
  imports Complex_Main "HOL-Library.Word"
begin

section \<open>The document model of \<open>intelliparse.types\<close>\<close>

text \<open>
  The module declares frozen \<open>msgspec.Struct\<close> classes. A frozen struct is an immutable
  value compared field by field, so each class is a record (or a datatype for the tagged
  union of page items) and every method is a pure function returning a new value.

  Python \<open>str\<close> is modelled by \<open>string\<close>, \<open>bytes\<close> by a list of 8-bit words, the unbounded
  \<open>int\<close> by \<open>int\<close>, \<open>Optional[T]\<close> by \<open>T option\<close> and \<open>Sequence[T]\<close> by \<open>T list\<close>.
  \<open>Optional[float]\<close> (the pixel dimensions of an image) is modelled by \<open>real option\<close>: the
  module only stores these numbers, it performs no arithmetic on them.
\<close>

subsection \<open>\<open>class Image\<close>\<close>

record Image =
  contents :: "8 word list"
  ocr_text :: "string option"
  height :: "real option"
  width :: "real option"
  name :: "string option"
  alt :: "string option"


subsection \<open>\<open>class PageItem\<close> and its three tagged subclasses\<close>

text \<open>
  \<open>PageItem\<close> declares the common field \<open>md\<close> and \<open>tag_field="type"\<close>; the subclasses add
  their fields and their tag. Constructor arguments are in field order:
  \<open>TextPageItem md text\<close>, \<open>HeadingPageItem md heading lvl\<close>,
  \<open>TablePageItem md rows csv is_perfect_table\<close>.
\<close>

datatype PageItem =
    TextPageItem string string
  | HeadingPageItem string string int
  | TablePageItem string "string list list" string bool

fun PageItem_md :: "PageItem \<Rightarrow> string" where
  "PageItem_md (TextPageItem m t) = m"
| "PageItem_md (HeadingPageItem m h l) = m"
| "PageItem_md (TablePageItem m r c p) = m"

text \<open>The value of the tag field \<open>type\<close>, as declared by \<open>tag=...\<close> on each subclass.\<close>

fun PageItem_type :: "PageItem \<Rightarrow> string" where
  "PageItem_type (TextPageItem m t) = ''text''"
| "PageItem_type (HeadingPageItem m h l) = ''heading''"
| "PageItem_type (TablePageItem m r c p) = ''table''"

subsection \<open>\<open>class SectionContent\<close>\<close>

record SectionContent =
  number :: int
  "text" :: string
  md :: "string option"
  images :: "Image list"
  items :: "PageItem list"

text \<open>
  The expression \<open>(x or "")\<close> on an \<open>Optional[str]\<close>: Python's \<open>or\<close> yields its left
  operand when that is truthy and its right operand otherwise; \<open>None\<close> and the empty
  string are the falsy values.
\<close>

definition or_empty :: "string option \<Rightarrow> string" where
  "or_empty x = (case x of None \<Rightarrow> [] | Some s \<Rightarrow> (if s = [] then [] else s))"

text \<open>\<open>itertools.chain(*iterables)\<close>: the elements of each iterable in turn.\<close>

fun chain :: "'a list list \<Rightarrow> 'a list" where
  "chain [] = []"
| "chain (xs # xss) = xs @ chain xss"

text \<open>\<open>SectionContent.__add__\<close>.\<close>

definition SectionContent_add :: "SectionContent \<Rightarrow> SectionContent \<Rightarrow> SectionContent" where
  "SectionContent_add self other =
     \<lparr>number = number self,
      text = text self @ text other,
      md = Some (or_empty (md self) @ or_empty (md other)),
      images = chain [images self, images other],
      items = chain [items self, items other]\<rparr>"

subsection \<open>\<open>class ParsedFile\<close>\<close>

record ParsedFile =
  name :: string
  sections :: "SectionContent list"

text \<open>\<open>ParsedFile.merge_all\<close>, \<open>ParsedFile.from_sections\<close> and \<open>ParsedFile.from_parsed_files\<close>.\<close>

definition merge_all :: "ParsedFile \<Rightarrow> ParsedFile list \<Rightarrow> ParsedFile" where
  "merge_all self others =
     \<lparr>name = name self, sections = chain (sections self # map sections others)\<rparr>"

definition from_sections :: "string \<Rightarrow> SectionContent list \<Rightarrow> ParsedFile" where
  "from_sections n secs = \<lparr>name = n, sections = secs\<rparr>"

definition from_parsed_files :: "ParsedFile list \<Rightarrow> ParsedFile" where
  "from_parsed_files files = \<lparr>name = ''MergedFile'', sections = chain (map sections files)\<rparr>"

text \<open>\<open>sep.join(parts)\<close> on a list of strings.\<close>

fun join :: "string \<Rightarrow> string list \<Rightarrow> string" where
  "join sep [] = []"
| "join sep [x] = x"
| "join sep (x # y # ys) = x @ sep @ join sep (y # ys)"

text \<open>The property \<open>ParsedFile.md\<close>: \<open>"\n".join([sec.md or "" for sec in self.sections])\<close>.\<close>

definition ParsedFile_md :: "ParsedFile \<Rightarrow> string" where
  "ParsedFile_md self = join [CHR 0x0A] (map (\<lambda>sec. or_empty (md sec)) (sections self))"

text \<open>
  \<open>str(n)\<close> for the non-negative integers that \<open>enumerate\<close> produces: the decimal digits,
  most significant first, no leading zero.
\<close>

function str_nat :: "nat \<Rightarrow> string" where
  "str_nat n =
     (if n < 10 then [''0123456789'' ! n]
      else str_nat (n div 10) @ [''0123456789'' ! (n mod 10)])"
  by pat_completeness auto
termination
  by (relation "measure id") auto

declare str_nat.simps [simp del]

text \<open>
  What an f-string replacement field \<open>{x}\<close> prints for an \<open>Optional[str]\<close>: the string
  itself, and \<open>str(None)\<close>, the four characters \<open>None\<close>, when it is absent.
\<close>

fun format_optional :: "string option \<Rightarrow> string" where
  "format_optional None = ''None''"
| "format_optional (Some s) = s"

text \<open>
  The property \<open>ParsedFile.llm_described_text\<close>. \<open>section_entry\<close> is the f-string of the
  list comprehension, applied to one pair \<open>(num, section)\<close> of \<open>enumerate(self.sections)\<close>.
\<close>

definition section_entry :: "nat \<times> SectionContent \<Rightarrow> string" where
  "section_entry p =
     (case p of (num, sec) \<Rightarrow>
        ''<section_'' @ str_nat num @ ''> '' @ format_optional (md sec)
          @ '' </section_'' @ str_nat num @ ''>'')"

definition llm_described_text :: "ParsedFile \<Rightarrow> string" where
  "llm_described_text self =
     (let sections_str = join '' '' (map section_entry (enumerate 0 (sections self)))
      in ''<file>'' @ [CHR 0x0A, CHR 0x0A] @ ''**name:** '' @ name self @ '' '' @ [CHR 0x0A]
           @ ''**sections:** '' @ sections_str @ [CHR 0x0A, CHR 0x0A] @ ''</file>'')"

subsection \<open>Notions of the specification\<close>

text \<open>
  The specification's \<open>markup_or_empty\<close>: the markup of a section, an absent markup
  being read as the empty string.
\<close>

definition markup_or_empty :: "string option \<Rightarrow> string" where
  "markup_or_empty m = (case m of None \<Rightarrow> [] | Some s \<Rightarrow> s)"

text \<open>
  The specification's markup view of a document: the markups of the sections in section
  order, an absent one read as the empty string, with a line break between consecutive
  ones. Written here as the first markup followed by every further markup preceded by
  the line break.
\<close>

definition md_view_spec :: "ParsedFile \<Rightarrow> string" where
  "md_view_spec f =
     (case map (\<lambda>sec. markup_or_empty (md sec)) (sections f) of
        [] \<Rightarrow> []
      | m # ms \<Rightarrow> m @ concat (map (\<lambda>x. CHR 0x0A # x) ms))"




text \<open>
  Reading a decimal numeral: the value of a digit character, the characters that are
  digits, and the number that a string of digits denotes, most significant digit first.
  They say what the decimal rendering of a position in a tag has to be, independently
  of how the rendering is computed.
\<close>

definition digit_value :: "char \<Rightarrow> nat" where
  "digit_value c = of_char c - 48"

definition is_digit :: "char \<Rightarrow> bool" where
  "is_digit c = (48 \<le> (of_char c :: nat) \<and> (of_char c :: nat) \<le> 57)"

definition decimal_value :: "string \<Rightarrow> nat" where
  "decimal_value s = foldl (\<lambda>acc c. 10 * acc + digit_value c) 0 s"

section \<open>Basic facts\<close>

lemma chain_concat: "chain xss = concat xss"
  by (induction xss) simp_all

lemma or_empty_markup: "or_empty m = markup_or_empty m"
  by (cases m) (simp_all add: or_empty_def markup_or_empty_def)

lemma PageItem_type_values: "PageItem_type i \<in> {''text'', ''heading'', ''table''}"
  by (cases i) simp_all

section \<open>Merging two sections\<close>

text \<open>
  C1. For all sections \<open>a\<close> and \<open>b\<close>, the merge \<open>a + b\<close> has the number of \<open>a\<close>, the text
  of \<open>a\<close> followed by the text of \<open>b\<close>, and as images and items the sequence of \<open>a\<close>
  followed by the sequence of \<open>b\<close>, each in its own order; so the lengths add up.
\<close>

theorem SectionContent_add_fields:
  "number (SectionContent_add a b) = number a
   \<and> text (SectionContent_add a b) = text a @ text b
   \<and> images (SectionContent_add a b) = images a @ images b
   \<and> items (SectionContent_add a b) = items a @ items b
   \<and> length (images (SectionContent_add a b)) = length (images a) + length (images b)
   \<and> length (items (SectionContent_add a b)) = length (items a) + length (items b)"
  by (simp add: SectionContent_add_def)

text \<open>
  C2. For all sections \<open>a\<close> and \<open>b\<close>, the markup of \<open>a + b\<close> is the markup of \<open>a\<close> followed
  by the markup of \<open>b\<close>, an absent markup counting as the empty string; the markup of a
  merge is always present, also when both operands have none.
\<close>

theorem SectionContent_add_md:
  "md (SectionContent_add a b) = Some (markup_or_empty (md a) @ markup_or_empty (md b))
   \<and> md (SectionContent_add a b) \<noteq> None
   \<and> md (SectionContent_add (a\<lparr>md := None\<rparr>) (b\<lparr>md := None\<rparr>)) = Some []"
  by (simp add: SectionContent_add_def or_empty_markup markup_or_empty_def)

text \<open>
  C8. The merge of sections is associative, \<open>(a + b) + c = a + (b + c)\<close> for all sections,
  and it is not commutative: there are sections \<open>a\<close> and \<open>b\<close> with \<open>a + b \<noteq> b + a\<close>.
\<close>

theorem SectionContent_add_assoc_not_comm:
  "(\<forall>a b c. SectionContent_add (SectionContent_add a b) c
              = SectionContent_add a (SectionContent_add b c))
   \<and> (\<exists>a b. SectionContent_add a b \<noteq> SectionContent_add b a)"
proof
  show "\<forall>a b c. SectionContent_add (SectionContent_add a b) c
                 = SectionContent_add a (SectionContent_add b c)"
    by (simp add: SectionContent_add_def or_empty_def)
next
  let ?a = "\<lparr>number = 1, text = ''x'', md = None, images = [], items = []\<rparr>"
  let ?b = "\<lparr>number = 2, text = ''y'', md = None, images = [], items = []\<rparr>"
  have "SectionContent_add ?a ?b \<noteq> SectionContent_add ?b ?a"
    by (simp add: SectionContent_add_def)
  then show "\<exists>a b. SectionContent_add a b \<noteq> SectionContent_add b a"
    by blast
qed

section \<open>Merging documents\<close>

text \<open>
  C5. For every document \<open>primary\<close> and every sequence \<open>others\<close> of documents,
  \<open>merge_all primary others\<close> is named after \<open>primary\<close> and its sections are the sections
  of \<open>primary\<close> followed by the sections of each element of \<open>others\<close> in input order. The
  equation is between lists of section records, so every section is carried over with
  all its fields unchanged. In particular, merging \<open>d1\<close> with the single document \<open>d2\<close>
  gives the sections of \<open>d1\<close> followed by those of \<open>d2\<close>.
\<close>

theorem merge_all_name_sections:
  "name (merge_all primary others) = name primary
   \<and> sections (merge_all primary others) = sections primary @ concat (map sections others)
   \<and> sections (merge_all d1 [d2]) = sections d1 @ sections d2"
  by (simp add: merge_all_def chain_concat)

text \<open>
  C6. For every sequence \<open>files\<close> of documents, \<open>from_parsed_files files\<close> is named
  \<open>MergedFile\<close>, whatever the names of the inputs, and its sections are the sections of
  the inputs in input order; on the empty sequence it is the document named \<open>MergedFile\<close>
  with no section.
\<close>

theorem from_parsed_files_sentinel:
  "name (from_parsed_files files) = ''MergedFile''
   \<and> sections (from_parsed_files files) = concat (map sections files)
   \<and> from_parsed_files [] = \<lparr>name = ''MergedFile'', sections = []\<rparr>"
  by (simp add: from_parsed_files_def chain_concat)

section \<open>The views of a document\<close>

lemma join_Cons: "join sep (x # xs) = x @ concat (map (\<lambda>y. sep @ y) xs)"
  by (induction xs arbitrary: x) simp_all

text \<open>
  C7. For every document, the property \<open>md\<close> is the markups of its sections joined in
  section order by one line break, a section without markup contributing the empty
  string: a section whose markup is absent gives the same view as one whose markup is
  the empty string, and a document of one section without markup has the empty view.
  Two sections with the markups \<open># A\<close> and \<open># B\<close> give \<open># A\<close>, a line break, \<open># B\<close>.
\<close>

theorem ParsedFile_md_joined:
  "ParsedFile_md f = md_view_spec f
   \<and> ParsedFile_md (f\<lparr>sections := pre @ [s\<lparr>md := None\<rparr>] @ post\<rparr>)
       = ParsedFile_md (f\<lparr>sections := pre @ [s\<lparr>md := Some []\<rparr>] @ post\<rparr>)
   \<and> ParsedFile_md \<lparr>name = n, sections = [s\<lparr>md := None\<rparr>]\<rparr> = []
   \<and> ParsedFile_md \<lparr>name = n, sections = [s1\<lparr>md := Some ''# A''\<rparr>, s2\<lparr>md := Some ''# B''\<rparr>]\<rparr>
       = ''# A'' @ [CHR 0x0A] @ ''# B''"
proof -
  have "ParsedFile_md f = md_view_spec f"
  proof (cases "sections f")
    case Nil
    then show ?thesis by (simp add: ParsedFile_md_def md_view_spec_def)
  next
    case (Cons x xs)
    then show ?thesis
      by (simp add: ParsedFile_md_def md_view_spec_def join_Cons or_empty_markup)
  qed
  moreover have "ParsedFile_md (f\<lparr>sections := pre @ [s\<lparr>md := None\<rparr>] @ post\<rparr>)
       = ParsedFile_md (f\<lparr>sections := pre @ [s\<lparr>md := Some []\<rparr>] @ post\<rparr>)"
    by (simp add: ParsedFile_md_def or_empty_def)
  moreover have "ParsedFile_md \<lparr>name = n, sections = [s\<lparr>md := None\<rparr>]\<rparr> = []"
    by (simp add: ParsedFile_md_def or_empty_def)
  moreover have
    "ParsedFile_md \<lparr>name = n, sections = [s1\<lparr>md := Some ''# A''\<rparr>, s2\<lparr>md := Some ''# B''\<rparr>]\<rparr>
       = ''# A'' @ [CHR 0x0A] @ ''# B''"
    by (simp add: ParsedFile_md_def or_empty_def)
  ultimately show ?thesis by blast
qed

lemma section_entries_by_position:
  "map section_entry (enumerate 0 xs)
     = map (\<lambda>i. ''<section_'' @ str_nat i @ ''> ''
                 @ (case md (xs ! i) of None \<Rightarrow> ''None'' | Some m \<Rightarrow> m)
                 @ '' </section_'' @ str_nat i @ ''>'') [0..<length xs]"
proof (rule nth_equalityI)
  show "length (map section_entry (enumerate 0 xs))
          = length (map (\<lambda>i. ''<section_'' @ str_nat i @ ''> ''
                 @ (case md (xs ! i) of None \<Rightarrow> ''None'' | Some m \<Rightarrow> m)
                 @ '' </section_'' @ str_nat i @ ''>'') [0..<length xs])"
    by simp
next
  fix i
  assume "i < length (map section_entry (enumerate 0 xs))"
  then have i: "i < length xs" by simp
  then show "map section_entry (enumerate 0 xs) ! i
          = map (\<lambda>i. ''<section_'' @ str_nat i @ ''> ''
                 @ (case md (xs ! i) of None \<Rightarrow> ''None'' | Some m \<Rightarrow> m)
                 @ '' </section_'' @ str_nat i @ ''>'') [0..<length xs] ! i"
    by (cases "md (xs ! i)") (simp_all add: nth_enumerate_eq section_entry_def)
qed

lemma section_entry_number: "section_entry (i, number_update g s) = section_entry (i, s)"
  by (simp add: section_entry_def)

lemma enumerate_map_snd: "enumerate k (map h xs) = map (\<lambda>p. (fst p, h (snd p))) (enumerate k xs)"
  by (induction xs arbitrary: k) simp_all

lemma less_ten_cases: "k < (10::nat) \<Longrightarrow> k \<in> {0, 1, 2, 3, 4, 5, 6, 7, 8, 9}"
  by auto

lemma digit_nth:
  "k < 10 \<Longrightarrow> digit_value (''0123456789'' ! k) = k \<and> is_digit (''0123456789'' ! k)"
  using less_ten_cases [of k] by (auto simp: digit_value_def is_digit_def)

lemma decimal_value_snoc: "decimal_value (s @ [c]) = 10 * decimal_value s + digit_value c"
  by (simp add: decimal_value_def)

lemma decimal_value_str_nat: "decimal_value (str_nat n) = n"
proof (induction n rule: str_nat.induct)
  case (1 n)
  show ?case
  proof (cases "n < 10")
    case True
    then show ?thesis
      by (subst str_nat.simps) (simp add: decimal_value_def digit_nth)
  next
    case False
    with 1 show ?thesis
      by (subst str_nat.simps) (simp add: decimal_value_snoc digit_nth)
  qed
qed

lemma str_nat_digits: "str_nat n \<noteq> [] \<and> list_all is_digit (str_nat n)"
proof (induction n rule: str_nat.induct)
  case (1 n)
  show ?case
  proof (cases "n < 10")
    case True
    then show ?thesis
      by (subst (1 2) str_nat.simps) (simp add: digit_nth)
  next
    case False
    with 1 show ?thesis
      by (subst (1 2) str_nat.simps) (simp add: digit_nth)
  qed
qed

lemma str_nat_leading_zero: "(hd (str_nat n) = CHR ''0'') = (n = 0)"
proof (induction n rule: str_nat.induct)
  case (1 n)
  show ?case
  proof (cases "n < 10")
    case True
    then show ?thesis
      using less_ten_cases [of n] by (subst str_nat.simps) auto
  next
    case False
    with 1 have "(hd (str_nat (n div 10)) = CHR ''0'') = (n div 10 = 0)" by simp
    moreover have "str_nat (n div 10) \<noteq> []" by (simp add: str_nat_digits)
    ultimately show ?thesis
      using False by (subst str_nat.simps) (simp add: div_eq_0_iff)
  qed
qed

lemma join_by_position:
  "join sep (map e [0..<n]) = concat (map (\<lambda>i. (if i = 0 then [] else sep) @ e i) [0..<n])"
proof (cases n)
  case 0
  then show ?thesis by simp
next
  case (Suc m)
  have "[0..<Suc m] = 0 # map Suc [0..<m]"
    by (simp add: upt_conv_Cons map_Suc_upt del: upt_Suc)
  then show ?thesis
    unfolding Suc by (simp add: join_Cons comp_def del: upt_Suc)
qed

text \<open>
  C10. In the view \<open>llm_described_text\<close> of a document, the entry of the section at
  zero-based position \<open>i\<close> is its markup, verbatim, between the tags \<open><section_i>\<close> and
  \<open></section_i>\<close>; every entry but the first is preceded by one space. The position in a
  tag is written in decimal: a non-empty string of digits that denotes \<open>i\<close> and starts
  with the digit 0 only for position 0. The tags carry the position, not the field
  \<open>number\<close>: changing the numbers of the sections leaves the view unchanged. A section
  without markup puts the text \<open>None\<close> between its tags, where the view \<open>md\<close> of the same
  document has the empty string. A document of two sections numbered 7 and 3 has the
  tags \<open>section_0\<close> and \<open>section_1\<close>, and the eleventh section of a document has the tag
  \<open>section_10\<close>.
\<close>

theorem llm_described_text_positional:
  "llm_described_text f =
     ''<file>'' @ [CHR 0x0A, CHR 0x0A] @ ''**name:** '' @ name f @ '' '' @ [CHR 0x0A]
       @ ''**sections:** ''
       @ concat (map (\<lambda>i. (if i = 0 then [] else '' '')
                              @ ''<section_'' @ str_nat i @ ''> ''
                              @ (case md (sections f ! i) of None \<Rightarrow> ''None'' | Some m \<Rightarrow> m)
                              @ '' </section_'' @ str_nat i @ ''>'') [0..<length (sections f)])
       @ [CHR 0x0A, CHR 0x0A] @ ''</file>''
   \<and> decimal_value (str_nat i) = i
   \<and> str_nat i \<noteq> []
   \<and> list_all is_digit (str_nat i)
   \<and> (hd (str_nat i) = CHR ''0'') = (i = 0)
   \<and> llm_described_text (f\<lparr>sections := map (number_update g) (sections f)\<rparr>)
       = llm_described_text f
   \<and> llm_described_text
         \<lparr>name = ''f'', sections = [\<lparr>number = 7, text = ''t'', md = None, images = [], items = []\<rparr>]\<rparr>
       = ''<file>'' @ [CHR 0x0A, CHR 0x0A] @ ''**name:** f '' @ [CHR 0x0A]
           @ ''**sections:** <section_0> None </section_0>'' @ [CHR 0x0A, CHR 0x0A] @ ''</file>''
   \<and> ParsedFile_md
         \<lparr>name = ''f'', sections = [\<lparr>number = 7, text = ''t'', md = None, images = [], items = []\<rparr>]\<rparr>
       = []
   \<and> llm_described_text
         \<lparr>name = ''f'', sections =
            [\<lparr>number = 7, text = ''t'', md = Some ''# A'', images = [], items = []\<rparr>,
             \<lparr>number = 3, text = ''u'', md = None, images = [], items = []\<rparr>]\<rparr>
       = ''<file>'' @ [CHR 0x0A, CHR 0x0A] @ ''**name:** f '' @ [CHR 0x0A]
           @ ''**sections:** <section_0> # A </section_0> <section_1> None </section_1>''
           @ [CHR 0x0A, CHR 0x0A] @ ''</file>''
   \<and> llm_described_text
         \<lparr>name = ''f'', sections =
            replicate 11 \<lparr>number = 1, text = ''t'', md = Some ''x'', images = [], items = []\<rparr>\<rparr>
       = ''<file>'' @ [CHR 0x0A, CHR 0x0A] @ ''**name:** f '' @ [CHR 0x0A]
           @ ''**sections:** <section_0> x </section_0> <section_1> x </section_1> <section_2> x </section_2> <section_3> x </section_3> <section_4> x </section_4> <section_5> x </section_5> <section_6> x </section_6> <section_7> x </section_7> <section_8> x </section_8> <section_9> x </section_9> <section_10> x </section_10>''
           @ [CHR 0x0A, CHR 0x0A] @ ''</file>''"
  (is "?view \<and> ?denotes \<and> ?nonempty \<and> ?digits \<and> ?leading \<and> ?numbers \<and> ?one \<and> ?one_md
        \<and> ?two \<and> ?eleven")
proof -
  have "join '' '' (map section_entry (enumerate 0 (sections f)))
          = concat (map (\<lambda>i. (if i = 0 then [] else '' '')
                              @ ''<section_'' @ str_nat i @ ''> ''
                              @ (case md (sections f ! i) of None \<Rightarrow> ''None'' | Some m \<Rightarrow> m)
                              @ '' </section_'' @ str_nat i @ ''>'') [0..<length (sections f)])"
    unfolding section_entries_by_position by (rule join_by_position)
  then have view: ?view
    by (simp add: llm_described_text_def)
  have denotes: ?denotes by (rule decimal_value_str_nat)
  have nonempty: ?nonempty and digits: ?digits by (simp_all add: str_nat_digits)
  have leading: ?leading by (rule str_nat_leading_zero)
  have "map section_entry (enumerate 0 (map (number_update g) (sections f)))
          = map section_entry (enumerate 0 (sections f))"
    by (simp add: enumerate_map_snd section_entry_number)
  then have numbers: ?numbers
    by (simp add: llm_described_text_def)
  have one: ?one
    by (simp add: llm_described_text_def section_entry_def str_nat.simps)
  have one_md: ?one_md
    by (simp add: ParsedFile_md_def or_empty_def)
  have two: ?two
    by (simp add: llm_described_text_def section_entry_def str_nat.simps)
  have eleven: ?eleven
    by code_simp
  from view denotes nonempty digits leading numbers one one_md two eleven
  show ?thesis by blast
qed

section \<open>The dimensions of images\<close>





end
